theory Spec2Isabelle
  imports Main "HOL-Library.Word" "HOL-Library.Multiset"
begin

unbundle bit_operations_syntax

section \<open>Common types\<close>

text \<open>
  A Go \<open>error\<close> is \<open>nil\<close> or carries a message: \<open>None\<close> is \<open>nil\<close>.
  \<open>time.Time\<close> is an instant counted in nanoseconds, \<open>time.Duration\<close> is an \<open>int64\<close>
  count of nanoseconds, \<open>[]byte\<close> is a list of bytes.
\<close>

type_synonym err = "string option"
type_synonym time = int
type_synonym duration = "64 word"
type_synonym bytes = "8 word list"

definition time_Before :: "time \<Rightarrow> time \<Rightarrow> bool" where
  "time_Before t u = (t < u)"

definition time_Add :: "time \<Rightarrow> duration \<Rightarrow> time" where
  "time_Add t d = t + sint d"

section \<open>The scheduler's data (package scheduler)\<close>

text \<open>
  \<open>Schedule\<close> is an interface; a value of it is given by what its planning method
  returns. Of \<open>Job\<close> and \<open>Configuration\<close> the fields read by the code below are kept.
  \<open>Configuration.Jobs\<close> is a Go map from job names to jobs.
\<close>

record Schedule =
  PlanForDate :: "time \<Rightarrow> time list"

record Job =
  Schedules :: "Schedule list"

record Configuration =
  Jobs :: "string \<rightharpoonup> Job"

section \<open>The daemon control plane (package subcommands/scheduler)\<close>

type_synonym ctx = nat

type_synonym schedulerState = "8 word"

definition AGENT_SCHEDULER_STOPPED :: schedulerState where
  "AGENT_SCHEDULER_STOPPED = 0"

definition AGENT_SCHEDULER_RUNNING :: schedulerState where
  "AGENT_SCHEDULER_RUNNING = 1"

text \<open>The struct \<open>SchedulerContext\<close>; a nil pointer is \<open>None\<close>. The mutex has no
  counterpart: every handler body runs under it, so the handlers run one after another.\<close>

record SchedulerContext =
  agentCtx :: ctx
  schedulerCtx :: "ctx option"
  schedulerConfig :: "Configuration option"
  schedulerState :: schedulerState

text \<open>What a handler does outside the singleton: cancelling an execution context,
  launching a Scheduler Service on a context with a configuration (the \<open>go ... Run()\<close>
  statements), and triggering the shutdown of the daemon.\<close>

datatype effect =
    Cancel ctx
  | Run ctx Configuration
  | Shutdown

text \<open>The process state: the singleton, the next execution context that
  \<open>appcontext.NewAppContextFrom\<close> hands out, and the effects so far, oldest first.\<close>

record daemon =
  schedulerContextSingleton :: SchedulerContext
  nextCtx :: ctx
  effects :: "effect list"

record Request =
  Type :: string
  Payload :: bytes

record Response =
  ExitCode :: int
  Err :: string

text \<open>\<open>Scheduler.Execute\<close> creates the singleton with only the agent context set.\<close>

definition Execute_init :: "ctx \<Rightarrow> daemon" where
  "Execute_init c =
     \<lparr>schedulerContextSingleton =
        \<lparr>agentCtx = c, schedulerCtx = None, schedulerConfig = None, schedulerState = 0\<rparr>,
      nextCtx = Suc c, effects = []\<rparr>"

text \<open>\<open>appcontext.NewAppContextFrom\<close>: a context that did not exist before.\<close>

definition NewAppContextFrom :: "daemon \<Rightarrow> ctx \<times> daemon" where
  "NewAppContextFrom d = (nextCtx d, d\<lparr>nextCtx := Suc (nextCtx d)\<rparr>)"

definition emit :: "effect \<Rightarrow> daemon \<Rightarrow> daemon" where
  "emit e d = d\<lparr>effects := effects d @ [e]\<rparr>"

definition startTasks :: "daemon \<Rightarrow> (int \<times> err) \<times> daemon" where
  "startTasks d =
     (let sc = schedulerContextSingleton d in
      case schedulerConfig sc of
        None \<Rightarrow> ((1, Some ''agent scheduler does not have a configuration''), d)
      | Some cfg \<Rightarrow>
          if schedulerState sc AND AGENT_SCHEDULER_RUNNING \<noteq> 0
          then ((1, Some ''agent scheduler already running''), d)
          else
            (let (c, d1) = NewAppContextFrom d;
                 d2 = d1\<lparr>schedulerContextSingleton := sc\<lparr>schedulerCtx := Some c\<rparr>\<rparr>;
                 d3 = emit (Run c cfg) d2;
                 d4 = d3\<lparr>schedulerContextSingleton :=
                          (schedulerContextSingleton d3)
                            \<lparr>schedulerState := AGENT_SCHEDULER_RUNNING\<rparr>\<rparr>
             in ((0, None), d4)))"

text \<open>\<open>stopTasks\<close> calls \<open>Cancel\<close> on the stored context without a nil check: with a
  nil context the handler panics, which is the result \<open>None\<close>.\<close>

definition stopTasks :: "daemon \<Rightarrow> ((int \<times> err) \<times> daemon) option" where
  "stopTasks d =
     (let sc = schedulerContextSingleton d in
      if schedulerState sc AND AGENT_SCHEDULER_RUNNING = 0
      then Some ((1, Some ''agent scheduler not running''), d)
      else
        (case schedulerCtx sc of
           None \<Rightarrow> None
         | Some c \<Rightarrow>
             (let d1 = emit (Cancel c) d;
                  d2 = d1\<lparr>schedulerContextSingleton :=
                           (schedulerContextSingleton d1)
                             \<lparr>schedulerState := AGENT_SCHEDULER_STOPPED\<rparr>\<rparr>;
                  d3 = d2\<lparr>schedulerContextSingleton :=
                           (schedulerContextSingleton d2)\<lparr>schedulerCtx := None\<rparr>\<rparr>
              in Some ((0, None), d3))))"

text \<open>Modelled from the spec: \<open>stop()\<close>, which \<open>terminate\<close> calls and which is not
  among the sources. The spec has it trigger the full shutdown of the daemon,
  whatever the run state; it does not name the singleton.\<close>

definition stop :: "daemon \<Rightarrow> err \<times> daemon" where
  "stop d = (None, emit Shutdown d)"

definition terminate :: "daemon \<Rightarrow> (int \<times> err) \<times> daemon" where
  "terminate d = (let (e, d1) = stop d in ((0, e), d1))"

text \<open>\<open>scheduler.ParseConfigBytes\<close> is a parameter: \<open>Inl\<close> is its error, \<open>Inr\<close> the
  configuration it allocates.\<close>

type_synonym parser = "bytes \<Rightarrow> string + Configuration"

definition configureTasks :: "parser \<Rightarrow> bytes \<Rightarrow> daemon \<Rightarrow> (int \<times> err) \<times> daemon" where
  "configureTasks ParseConfigBytes schedConfigBytes d =
     (case ParseConfigBytes schedConfigBytes of
        Inl e \<Rightarrow> ((1, Some e), d)
      | Inr schedConfig \<Rightarrow>
          (let d3 =
                 (case schedulerCtx (schedulerContextSingleton d) of
                    None \<Rightarrow> d
                  | Some old \<Rightarrow>
                      (let d1 = emit (Cancel old) d;
                           (c, d2) = NewAppContextFrom d1;
                           d2' = d2\<lparr>schedulerContextSingleton :=
                                    (schedulerContextSingleton d2)\<lparr>schedulerCtx := Some c\<rparr>\<rparr>
                       in emit (Run c schedConfig) d2'));
               d4 = d3\<lparr>schedulerContextSingleton :=
                        (schedulerContextSingleton d3)\<lparr>schedulerConfig := Some schedConfig\<rparr>\<rparr>
           in ((0, None), d4)))"

text \<open>The response a handler's result is turned into by \<open>handleClient\<close>.\<close>

definition respond :: "(int \<times> err) \<Rightarrow> Response" where
  "respond r =
     (case snd r of
        Some m \<Rightarrow> \<lparr>ExitCode = 1, Err = m\<rparr>
      | None \<Rightarrow> \<lparr>ExitCode = 0, Err = []\<rparr>)"

text \<open>\<open>handleClient\<close> from the point where the request has been read: \<open>None\<close> as request
  is a connection whose handshake or request could not be decoded, which is closed
  without a response. The result \<open>None\<close> is a panic of the handler.\<close>

definition handleClient ::
  "parser \<Rightarrow> Request option \<Rightarrow> daemon \<Rightarrow> (Response option \<times> daemon) option" where
  "handleClient ParseConfigBytes req d =
     (case req of
        None \<Rightarrow> Some (None, d)
      | Some request \<Rightarrow>
          if Type request = ''start'' then
            (let (r, d') = startTasks d in Some (Some (respond r), d'))
          else if Type request = ''stop'' then
            (case stopTasks d of
               None \<Rightarrow> None
             | Some (r, d') \<Rightarrow> Some (Some (respond r), d'))
          else if Type request = ''terminate'' then
            (let (r, d') = terminate d in Some (Some (respond r), d'))
          else if Type request = ''configure'' then
            (let (r, d') = configureTasks ParseConfigBytes (Payload request) d
             in Some (Some (respond r), d'))
          else
            Some (Some \<lparr>ExitCode = 1, Err = ''unknown command: '' @ Type request\<rparr>, d))"

text \<open>The connections the daemon serves, in the order in which their handlers take
  the mutex.\<close>

fun serve :: "parser \<Rightarrow> Request option list \<Rightarrow> daemon \<Rightarrow> daemon option" where
  "serve P [] d = Some d"
| "serve P (r # rs) d =
     (case handleClient P r d of
        None \<Rightarrow> None
      | Some (resp, d') \<Rightarrow> serve P rs d')"

section \<open>The Scheduler Service (scheduler/scheduler.go)\<close>

text \<open>The arguments of a formatted logging or reporting call, kept next to the format
  string instead of being rendered.\<close>

datatype arg = AStr string | AInt int | AErr err | ATime time

datatype log_entry =
    Debug string "arg list"
  | Info string "arg list"
  | Error string "arg list"

text \<open>A \<open>ScheduledJob\<close> lives on the heap: the engine is given the pointer, and the
  handle the engine returns is stored into the struct afterwards. A pointer is an index
  into the list of the structs allocated so far, an event handle is a number.\<close>

type_synonym event = nat
type_synonym ptr = nat

record ScheduledJob =
  event :: "event option"
  scheduled :: time
  job :: Job

text \<open>Modelled from the spec: the Timed-Event Engine \<open>Scheduler[T]\<close>, which is not
  among the sources. It keeps the pending (payload, time) pairs, and \<open>ScheduleAt\<close>
  returns a handle for the pair it adds. The pairs are kept here in the order of the
  calls, each with its handle.\<close>

record 'a Scheduler =
  pending :: "(event \<times> 'a \<times> time) list"
  nextEvent :: event

definition ScheduleAt :: "'a \<Rightarrow> time \<Rightarrow> 'a Scheduler \<Rightarrow> event \<times> 'a Scheduler" where
  "ScheduleAt x t e =
     (nextEvent e, e\<lparr>pending := pending e @ [(nextEvent e, x, t)], nextEvent := Suc (nextEvent e)\<rparr>)"

text \<open>\<open>SchedulerService\<close>: the configuration, the engine of job-ready events, and what
  the service has written to the logger and allocated.\<close>

record SchedulerService =
  config :: Configuration
  sched :: "ptr Scheduler"
  heap :: "ScheduledJob list"
  log :: "log_entry list"

definition logger :: "log_entry \<Rightarrow> SchedulerService \<Rightarrow> SchedulerService" where
  "logger l s = s\<lparr>log := log s @ [l]\<rparr>"

text \<open>The body of the innermost loop of \<open>ScheduleForDate\<close>, for one timestamp of a
  plan.\<close>

definition schedule_time :: "time \<Rightarrow> string \<Rightarrow> Job \<Rightarrow> time \<Rightarrow> SchedulerService \<Rightarrow> SchedulerService" where
  "schedule_time date name jb t s =
     (if time_Before t date
      then logger (Debug ''job %q: ignore for past time %v'' [AStr name, ATime t]) s
      else
        (let s1 = logger (Debug ''job %q: scheduled for %v'' [AStr name, ATime t]) s;
             sj = length (heap s1);
             s2 = s1\<lparr>heap := heap s1 @ [\<lparr>event = None, scheduled = t, job = jb\<rparr>]\<rparr>;
             (ev, e) = ScheduleAt sj t (sched s2)
         in s2\<lparr>sched := e, heap := (heap s2)[sj := (heap s2 ! sj)\<lparr>event := Some ev\<rparr>]\<rparr>))"

fun plan_loop :: "time \<Rightarrow> string \<Rightarrow> Job \<Rightarrow> time list \<Rightarrow> SchedulerService \<Rightarrow> SchedulerService" where
  "plan_loop date name jb [] s = s"
| "plan_loop date name jb (t # plan) s = plan_loop date name jb plan (schedule_time date name jb t s)"

fun schedules_loop ::
  "time \<Rightarrow> string \<Rightarrow> Job \<Rightarrow> Schedule list \<Rightarrow> SchedulerService \<Rightarrow> SchedulerService" where
  "schedules_loop date name jb [] s = s"
| "schedules_loop date name jb (schedule # rest) s =
     schedules_loop date name jb rest (plan_loop date name jb (PlanForDate schedule date) s)"

text \<open>The loop over the map \<open>s.config.Jobs\<close>. Go leaves the order in which \<open>range\<close>
  visits a map open, so the order is an argument: the list of the keys as this run of
  the loop visits them.\<close>

fun jobs_loop :: "time \<Rightarrow> string list \<Rightarrow> SchedulerService \<Rightarrow> SchedulerService" where
  "jobs_loop date [] s = s"
| "jobs_loop date (name # names) s =
     jobs_loop date names
       (case Jobs (config s) name of
          None \<Rightarrow> s
        | Some jb \<Rightarrow> schedules_loop date name jb (Schedules jb) s)"

definition ScheduleForDate :: "string list \<Rightarrow> time \<Rightarrow> SchedulerService \<Rightarrow> SchedulerService" where
  "ScheduleForDate order date s =
     jobs_loop date order (logger (Debug ''scheduling jobs for %v'' [ATime date]) s)"

text \<open>An order in which \<open>range\<close> can visit the jobs of a configuration: every key
  once.\<close>

definition visits :: "Configuration \<Rightarrow> string list \<Rightarrow> bool" where
  "visits cfg order = (distinct order \<and> set order = dom (Jobs cfg))"

text \<open>The job-ready events that a call has armed, each as the job and the timestamp it
  is armed for: the entries that the engine has after the call and had not before it,
  with the job read through the pointer.\<close>

definition armed_by :: "SchedulerService \<Rightarrow> SchedulerService \<Rightarrow> (Job \<times> time) list" where
  "armed_by s s' =
     map (\<lambda>(ev, sj, t). (job (heap s' ! sj), t))
       (drop (length (pending (sched s))) (pending (sched s')))"

text \<open>What the specification says is armed when the jobs are visited in a given
  order: for every job, every schedule of it and every timestamp of the schedule's plan
  for the date, in turn, the timestamp is kept unless it is strictly before the date.\<close>

definition job_ready_spec :: "Configuration \<Rightarrow> string list \<Rightarrow> time \<Rightarrow> (Job \<times> time) list" where
  "job_ready_spec cfg order date =
     concat (map (\<lambda>name.
        case Jobs cfg name of
          None \<Rightarrow> []
        | Some jb \<Rightarrow>
            concat (map (\<lambda>schedule.
              map (Pair jb) (filter (\<lambda>t. \<not> t < date) (PlanForDate schedule date)))
              (Schedules jb))) order)"

text \<open>And what it says is logged for the timestamps: one line each, telling the skipped
  from the armed.\<close>

definition plan_log_spec :: "Configuration \<Rightarrow> string list \<Rightarrow> time \<Rightarrow> log_entry list" where
  "plan_log_spec cfg order date =
     concat (map (\<lambda>name.
        case Jobs cfg name of
          None \<Rightarrow> []
        | Some jb \<Rightarrow>
            concat (map (\<lambda>schedule.
              map (\<lambda>t. if t < date
                        then Debug ''job %q: ignore for past time %v'' [AStr name, ATime t]
                        else Debug ''job %q: scheduled for %v'' [AStr name, ATime t])
                (PlanForDate schedule date))
              (Schedules jb))) order)"

text \<open>The engine entries and the structs that a list of (job, timestamp) pairs gives
  when armed one after another, from a given next handle and next pointer.\<close>

fun entries_from :: "event \<Rightarrow> ptr \<Rightarrow> (Job \<times> time) list \<Rightarrow> (event \<times> ptr \<times> time) list" where
  "entries_from n m [] = []"
| "entries_from n m (x # xs) = (n, m, snd x) # entries_from (Suc n) (Suc m) xs"

fun structs_from :: "event \<Rightarrow> (Job \<times> time) list \<Rightarrow> ScheduledJob list" where
  "structs_from n [] = []"
| "structs_from n (x # xs) =
     \<lparr>event = Some n, scheduled = snd x, job = fst x\<rparr> # structs_from (Suc n) xs"

definition arm_all :: "(Job \<times> time) list \<Rightarrow> log_entry list \<Rightarrow> SchedulerService \<Rightarrow> SchedulerService" where
  "arm_all xs ls s =
     s\<lparr>sched := (sched s)\<lparr>pending := pending (sched s) @ entries_from (nextEvent (sched s)) (length (heap s)) xs,
                          nextEvent := nextEvent (sched s) + length xs\<rparr>,
       heap := heap s @ structs_from (nextEvent (sched s)) xs,
       log := log s @ ls\<rparr>"

text \<open>What one schedule of a job contributes to the two lists above.\<close>

definition sched_arms :: "time \<Rightarrow> Job \<Rightarrow> Schedule \<Rightarrow> (Job \<times> time) list" where
  "sched_arms date jb schedule = map (Pair jb) (filter (\<lambda>t. \<not> t < date) (PlanForDate schedule date))"

definition sched_log :: "time \<Rightarrow> string \<Rightarrow> Schedule \<Rightarrow> log_entry list" where
  "sched_log date name schedule =
     map (\<lambda>t. if t < date
               then Debug ''job %q: ignore for past time %v'' [AStr name, ATime t]
               else Debug ''job %q: scheduled for %v'' [AStr name, ATime t])
       (PlanForDate schedule date)"

section \<open>The Task Runner Loops (package scheduler, the task file)\<close>

type_synonym store = nat
type_synonym repo = nat
type_synonym secret = bytes
type_synonym snapshot = bytes

text \<open>The task configurations, with the fields that the loops read. Several of the Go
  structs have fields of the same name, so every field carries the name of its struct.
  The \<open>Interval\<close> of a task only sets when its timer fires; the firing is an input of
  the loops below.\<close>

record Task =
  Task_Name :: string
  Task_Repository :: string

record BackupConfig =
  Backup_Name :: string
  Backup_Path :: string
  Backup_Check_Enabled :: bool
  Backup_Retention :: duration

record CheckConfig =
  Check_Latest :: bool
  Check_Path :: string

record RestoreConfig =
  Restore_Target :: string
  Restore_Path :: string

record SyncConfig =
  Sync_Peer :: string
  Sync_Direction :: string

record MaintenanceConfig =
  Maintenance_Repository :: string
  Maintenance_Retention :: duration

text \<open>Modelled from the spec: the three sync directions, whose declaration is not
  among the sources. The spec names them push ("to"), pull ("from") and bidirectional
  ("with").\<close>

definition SyncDirectionTo :: string where
  "SyncDirectionTo = ''to''"

definition SyncDirectionFrom :: string where
  "SyncDirectionFrom = ''from''"

definition SyncDirectionWith :: string where
  "SyncDirectionWith = ''with''"

text \<open>The subcommand structs that the loops fill in, with the fields they set.\<close>

record LocateOptions =
  lo_Job :: string
  lo_Latest :: bool
  lo_Before :: time

record Backup =
  bk_Silent :: bool
  bk_Job :: string
  bk_Path :: string
  bk_Quiet :: bool
  bk_Opts :: "(string \<times> string) list"
  bk_OptCheck :: bool

record Rm =
  rm_LocateOptions :: LocateOptions

record Check =
  ck_LocateOptions :: LocateOptions
  ck_Silent :: bool
  ck_Snapshots :: "string list"

record Restore =
  rs_OptJob :: string
  rs_Target :: string
  rs_Silent :: bool
  rs_Snapshots :: "string list"

record Sync =
  sy_PeerRepositoryLocation :: string
  sy_Direction :: string

record encryption_Configuration =
  KDFParams :: string

record storage_Configuration =
  Version :: nat
  Encryption :: encryption_Configuration

text \<open>What a loop does to the world around it, in the order in which it does it: lines
  written to the logger, storage and repository handles obtained and closed, the secret
  stored in the context, calls on the report of the tick, the operations run on the
  repository, and the cancellation of the owning context.\<close>

datatype action =
    Log log_entry
  | StorageOpen store
  | StoreClose store
  | SetSecret secret
  | RepositoryNew repo
  | RepoClose repo
  | NewReport
  | TaskStart string string
  | WithRepositoryName string
  | WithRepository repo
  | WithSnapshotID snapshot
  | TaskFailed int string "arg list"
  | TaskWarning string "arg list"
  | TaskDone
  | DoBackup Backup repo
  | RmExecute Rm repo
  | CheckExecute Check repo
  | RestoreExecute Restore repo
  | SyncExecute Sync repo
  | MaintenanceExecute repo
  | CtxCancel

text \<open>The collaborators as they answer during one tick: the clock, the secret that the
  context holds when the tick begins, the configuration and storage layers, and the
  operations. An answer \<open>Inl\<close> is an error. \<open>current_Version\<close> is
  \<open>versioning.FromString(storage.VERSION)\<close>.\<close>

record world =
  Now :: time
  GetSecret :: "secret option"
  ReloadConfig :: err
  GetRepository :: "string \<Rightarrow> string + (string \<rightharpoonup> string)"
  storage_Open :: "(string \<rightharpoonup> string) \<Rightarrow> string + (store \<times> bytes)"
  NewConfigurationFromWrappedBytes :: "bytes \<Rightarrow> string + storage_Configuration"
  current_Version :: nat
  Version_String :: "nat \<Rightarrow> string"
  storage_VERSION :: string
  DeriveKey :: "string \<Rightarrow> string \<Rightarrow> string + secret"
  VerifyCanary :: "encryption_Configuration \<Rightarrow> secret \<Rightarrow> bool"
  repository_New :: "secret option \<Rightarrow> store \<Rightarrow> bytes \<Rightarrow> string + repo"
  Backup_DoBackup :: "Backup \<Rightarrow> repo \<Rightarrow> int \<times> err \<times> snapshot \<times> err"
  Rm_Execute :: "Rm \<Rightarrow> repo \<Rightarrow> int \<times> err"
  Check_Execute :: "Check \<Rightarrow> repo \<Rightarrow> int \<times> err"
  Restore_Execute :: "Restore \<Rightarrow> repo \<Rightarrow> int \<times> err"
  Sync_Execute :: "Sync \<Rightarrow> repo \<Rightarrow> int \<times> err"
  Maintenance_Execute :: "repo \<Rightarrow> int \<times> err"

text \<open>The result of \<open>loadRepository\<close>: on an error, the store it returns (nil but in
  one case) and the message; otherwise the repository and the store.\<close>

datatype load_result =
    LoadFailed "store option" string
  | Loaded repo store

text \<open>The block of \<open>loadRepository\<close> that is run when the store's configuration has a
  passphrase: the secret that the context holds afterwards, or the error.\<close>

definition passphrase_secret ::
  "world \<Rightarrow> storage_Configuration \<Rightarrow> (string \<rightharpoonup> string) \<Rightarrow> string + (action list \<times> secret option)" where
  "passphrase_secret w repoConfig storeConfig =
     (case storeConfig ''passphrase'' of
        None \<Rightarrow> Inr ([], GetSecret w)
      | Some passphrase \<Rightarrow>
          (case DeriveKey w (KDFParams (Encryption repoConfig)) passphrase of
             Inl e \<Rightarrow> Inl (''error deriving key: '' @ e)
           | Inr key \<Rightarrow>
               if \<not> VerifyCanary w (Encryption repoConfig) key
               then Inl ''invalid passphrase''
               else Inr ([SetSecret key], Some key)))"

definition loadRepository :: "world \<Rightarrow> string \<Rightarrow> action list \<times> load_result" where
  "loadRepository w name =
     (case ReloadConfig w of
        Some e \<Rightarrow> ([], LoadFailed None (''could not load configuration: '' @ e))
      | None \<Rightarrow>
     (case GetRepository w name of
        Inl e \<Rightarrow> ([], LoadFailed None (''unable to get repository configuration: '' @ e))
      | Inr storeConfig \<Rightarrow>
     (case storage_Open w storeConfig of
        Inl e \<Rightarrow> ([], LoadFailed None (''unable to open storage: '' @ e))
      | Inr opened \<Rightarrow>
     (let store = fst opened; config = snd opened in
      case NewConfigurationFromWrappedBytes w config of
        Inl e \<Rightarrow>
          ([StorageOpen store, StoreClose store],
           LoadFailed None (''unable to read repository configuration: '' @ e))
      | Inr repoConfig \<Rightarrow>
          if Version repoConfig \<noteq> current_Version w
          then
            ([StorageOpen store, StoreClose store],
             LoadFailed None
               (''incompatible repository version: '' @ Version_String w (Version repoConfig) @
                '' != '' @ storage_VERSION w))
          else
            (case passphrase_secret w repoConfig storeConfig of
               Inl e \<Rightarrow> ([StorageOpen store, StoreClose store], LoadFailed None e)
             | Inr keyed \<Rightarrow>
                 (case repository_New w (snd keyed) store config of
                    Inl e \<Rightarrow>
                      (StorageOpen store # fst keyed @ [StoreClose store],
                       LoadFailed (Some store) (''unable to open repository: '' @ e))
                  | Inr repo \<Rightarrow>
                      (StorageOpen store # fst keyed @ [RepositoryNew repo],
                       Loaded repo store)))))))"

text \<open>One tick of the backup loop, from \<open>loadRepository\<close> to the label \<open>close\<close>. The
  \<open>rm\<close> subcommand outlives the tick, so the tick returns it.\<close>

definition backupTick :: "world \<Rightarrow> Task \<Rightarrow> BackupConfig \<Rightarrow> Backup \<Rightarrow> Rm \<Rightarrow> action list \<times> Rm" where
  "backupTick w taskset task backupSubcommand rmSubcommand =
     (case loadRepository w (Task_Repository taskset) of
        (la, LoadFailed st e) \<Rightarrow>
          (la @ [Log (Error ''Error loading repository: %s'' [AErr (Some e)])], rmSubcommand)
      | (la, Loaded repo store) \<Rightarrow>
          (let report = la @ [NewReport, TaskStart ''backup'' (Task_Name taskset),
                              WithRepositoryName (Task_Repository taskset), WithRepository repo];
               closing = [RepoClose repo, StoreClose store]
           in case Backup_DoBackup w backupSubcommand repo of
             (retval, err, snapId, warning) \<Rightarrow>
               if err \<noteq> None \<or> retval \<noteq> 0 then
                 (report @
                    [DoBackup backupSubcommand repo,
                     Log (Error ''Error creating backup: %s'' [AErr err]),
                     TaskFailed 1 ''Error creating backup: retval=%d, err=%s'' [AInt retval, AErr err]] @
                    closing,
                  rmSubcommand)
               else
                 (let backed = report @ [DoBackup backupSubcommand repo, WithSnapshotID snapId];
                      finish =
                        (case warning of
                           Some m \<Rightarrow> [TaskWarning ''Warning during backup: %s'' [AErr warning]]
                         | None \<Rightarrow> [TaskDone])
                  in if Backup_Retention task \<noteq> 0 then
                       (let rm = rmSubcommand\<lparr>rm_LocateOptions :=
                                   (rm_LocateOptions rmSubcommand)
                                     \<lparr>lo_Before := time_Add (Now w) (- Backup_Retention task)\<rparr>\<rparr>
                        in case Rm_Execute w rm repo of
                          (retval, err) \<Rightarrow>
                            if err \<noteq> None \<or> retval \<noteq> 0 then
                              (backed @
                                 [RmExecute rm repo,
                                  Log (Error ''Error removing obsolete backups: %s'' [AErr err]),
                                  TaskWarning ''Error removing obsolete backups: retval=%d, err=%s''
                                    [AInt retval, AErr err]] @
                                 closing,
                               rm)
                            else (backed @ [RmExecute rm repo] @ finish @ closing, rm))
                     else (backed @ finish @ closing, rmSubcommand))))"

definition checkTick :: "world \<Rightarrow> Task \<Rightarrow> Check \<Rightarrow> action list" where
  "checkTick w taskset checkSubcommand =
     (case loadRepository w (Task_Repository taskset) of
        (la, LoadFailed st e) \<Rightarrow>
          la @ [Log (Error ''Error loading repository: %s'' [AErr (Some e)])]
      | (la, Loaded repo store) \<Rightarrow>
          la @ [NewReport, TaskStart ''check'' (Task_Name taskset),
                WithRepositoryName (Task_Repository taskset), WithRepository repo,
                CheckExecute checkSubcommand repo] @
          (case Check_Execute w checkSubcommand repo of
             (retval, err) \<Rightarrow>
               if err \<noteq> None \<or> retval \<noteq> 0 then
                 [Log (Error ''Error executing check: %s'' [AErr err]),
                  TaskFailed 1 ''Error executing check: retval=%d, err=%s'' [AInt retval, AErr err]]
               else [TaskDone]) @
          [RepoClose repo, StoreClose store])"

definition restoreTick :: "world \<Rightarrow> Task \<Rightarrow> Restore \<Rightarrow> action list" where
  "restoreTick w taskset restoreSubcommand =
     (case loadRepository w (Task_Repository taskset) of
        (la, LoadFailed st e) \<Rightarrow>
          la @ [Log (Error ''Error loading repository: %s'' [AErr (Some e)])]
      | (la, Loaded repo store) \<Rightarrow>
          la @ [NewReport, TaskStart ''restore'' (Task_Name taskset),
                WithRepositoryName (Task_Repository taskset), WithRepository repo,
                RestoreExecute restoreSubcommand repo] @
          (case Restore_Execute w restoreSubcommand repo of
             (retval, err) \<Rightarrow>
               if err \<noteq> None \<or> retval \<noteq> 0 then
                 [Log (Error ''Error executing restore: %s'' [AErr err]),
                  TaskFailed 1 ''Error executing restore: retval=%d, err=%s'' [AInt retval, AErr err]]
               else [TaskDone]) @
          [RepoClose repo, StoreClose store])"

definition syncTick :: "world \<Rightarrow> Task \<Rightarrow> Sync \<Rightarrow> action list" where
  "syncTick w taskset syncSubcommand =
     (case loadRepository w (Task_Repository taskset) of
        (la, LoadFailed st e) \<Rightarrow>
          la @ [Log (Error ''Error loading repository: %s'' [AErr (Some e)])]
      | (la, Loaded repo store) \<Rightarrow>
          la @ [NewReport, TaskStart ''sync'' (Task_Name taskset),
                WithRepositoryName (Task_Repository taskset), WithRepository repo,
                SyncExecute syncSubcommand repo] @
          (case Sync_Execute w syncSubcommand repo of
             (retval, err) \<Rightarrow>
               if err \<noteq> None \<or> retval \<noteq> 0 then
                 [Log (Error ''sync: %s'' [AErr err]),
                  TaskFailed 1 ''Error executing sync: retval=%d, err=%s'' [AInt retval, AErr err]]
               else [Log (Info ''sync: synchronization succeeded'' []), TaskDone]) @
          [RepoClose repo, StoreClose store])"

definition maintenanceTick :: "world \<Rightarrow> MaintenanceConfig \<Rightarrow> Rm \<Rightarrow> action list \<times> Rm" where
  "maintenanceTick w task rmSubcommand =
     (case loadRepository w (Maintenance_Repository task) of
        (la, LoadFailed st e) \<Rightarrow>
          (la @ [Log (Error ''Error loading repository: %s'' [AErr (Some e)])], rmSubcommand)
      | (la, Loaded repo store) \<Rightarrow>
          (let report = la @ [NewReport, TaskStart ''maintenance'' ''maintenance'',
                              WithRepositoryName (Maintenance_Repository task),
                              WithRepository repo, MaintenanceExecute repo];
               closing = [RepoClose repo, StoreClose store]
           in case Maintenance_Execute w repo of
             (retval, err) \<Rightarrow>
               if err \<noteq> None \<or> retval \<noteq> 0 then
                 (report @
                    [Log (Error ''Error executing maintenance: %s'' [AErr err]),
                     TaskFailed 1 ''Error executing maintenance: retval=%d, err=%s''
                       [AInt retval, AErr err]] @
                    closing,
                  rmSubcommand)
               else
                 (let maintained = report @
                        [Log (Info ''maintenance of repository %s succeeded''
                                [AStr (Maintenance_Repository task)])]
                  in if Maintenance_Retention task \<noteq> 0 then
                       (let rm = rmSubcommand\<lparr>rm_LocateOptions :=
                                   (rm_LocateOptions rmSubcommand)
                                     \<lparr>lo_Before := time_Add (Now w) (- Maintenance_Retention task)\<rparr>\<rparr>
                        in case Rm_Execute w rm repo of
                          (retval, err) \<Rightarrow>
                            if err \<noteq> None \<or> retval \<noteq> 0 then
                              (maintained @
                                 [RmExecute rm repo,
                                  Log (Error ''Error removing obsolete backups: %s'' [AErr err]),
                                  TaskWarning ''Error removing obsolete backups: retval=%d, err=%s''
                                    [AInt retval, AErr err]] @
                                 closing,
                               rm)
                            else
                              (maintained @
                                 [RmExecute rm repo, Log (Info ''Retention purge succeeded'' []),
                                  TaskDone] @
                                 closing,
                               rm))
                     else (maintained @ [TaskDone] @ closing, rmSubcommand))))"

text \<open>The \<open>for\<close>/\<open>select\<close> loops. Each round waits for the context to be done or for
  the timer; the list gives, round by round, which of the two the \<open>select\<close> takes, and
  for a tick the world as it answers during that tick. A loop that has used up the list
  is waiting in its \<open>select\<close>; a loop that has seen the context done has returned.\<close>

datatype wakeup = Done | Tick world

datatype loop_end = Returned | Waiting

fun backupTask_loop ::
  "Task \<Rightarrow> BackupConfig \<Rightarrow> Backup \<Rightarrow> Rm \<Rightarrow> wakeup list \<Rightarrow> action list \<times> loop_end" where
  "backupTask_loop taskset task b rm [] = ([], Waiting)"
| "backupTask_loop taskset task b rm (Done # ws) = ([], Returned)"
| "backupTask_loop taskset task b rm (Tick w # ws) =
     (let tick = backupTick w taskset task b rm;
          rest = backupTask_loop taskset task b (snd tick) ws
      in (fst tick @ fst rest, snd rest))"

fun checkTask_loop :: "Task \<Rightarrow> Check \<Rightarrow> wakeup list \<Rightarrow> action list \<times> loop_end" where
  "checkTask_loop taskset c [] = ([], Waiting)"
| "checkTask_loop taskset c (Done # ws) = ([], Returned)"
| "checkTask_loop taskset c (Tick w # ws) =
     (let rest = checkTask_loop taskset c ws
      in (checkTick w taskset c @ fst rest, snd rest))"

fun restoreTask_loop :: "Task \<Rightarrow> Restore \<Rightarrow> wakeup list \<Rightarrow> action list \<times> loop_end" where
  "restoreTask_loop taskset r [] = ([], Waiting)"
| "restoreTask_loop taskset r (Done # ws) = ([], Returned)"
| "restoreTask_loop taskset r (Tick w # ws) =
     (let rest = restoreTask_loop taskset r ws
      in (restoreTick w taskset r @ fst rest, snd rest))"

fun syncTask_loop :: "Task \<Rightarrow> Sync \<Rightarrow> wakeup list \<Rightarrow> action list \<times> loop_end" where
  "syncTask_loop taskset y [] = ([], Waiting)"
| "syncTask_loop taskset y (Done # ws) = ([], Returned)"
| "syncTask_loop taskset y (Tick w # ws) =
     (let rest = syncTask_loop taskset y ws
      in (syncTick w taskset y @ fst rest, snd rest))"

fun maintenanceTask_loop ::
  "MaintenanceConfig \<Rightarrow> Rm \<Rightarrow> wakeup list \<Rightarrow> action list \<times> loop_end" where
  "maintenanceTask_loop task rm [] = ([], Waiting)"
| "maintenanceTask_loop task rm (Done # ws) = ([], Returned)"
| "maintenanceTask_loop task rm (Tick w # ws) =
     (let tick = maintenanceTick w task rm;
          rest = maintenanceTask_loop task (snd tick) ws
      in (fst tick @ fst rest, snd rest))"

text \<open>The five task functions: each fills in its subcommands and enters its loop.
  \<open>locate.NewDefaultLocateOptions()\<close> is not among the sources; its result is the first
  argument of the functions that call it.\<close>

definition backupTask ::
  "LocateOptions \<Rightarrow> Task \<Rightarrow> BackupConfig \<Rightarrow> wakeup list \<Rightarrow> action list \<times> loop_end" where
  "backupTask NewDefaultLocateOptions taskset task =
     backupTask_loop taskset task
       \<lparr>bk_Silent = True, bk_Job = Task_Name taskset, bk_Path = Backup_Path task,
        bk_Quiet = True, bk_Opts = [], bk_OptCheck = Backup_Check_Enabled task\<rparr>
       \<lparr>rm_LocateOptions = NewDefaultLocateOptions\<lparr>lo_Job := Backup_Name task\<rparr>\<rparr>"

definition checkTask ::
  "LocateOptions \<Rightarrow> Task \<Rightarrow> CheckConfig \<Rightarrow> wakeup list \<Rightarrow> action list \<times> loop_end" where
  "checkTask NewDefaultLocateOptions taskset task =
     checkTask_loop taskset
       \<lparr>ck_LocateOptions =
          NewDefaultLocateOptions\<lparr>lo_Job := Task_Name taskset, lo_Latest := Check_Latest task\<rparr>,
        ck_Silent = True,
        ck_Snapshots = (if Check_Path task \<noteq> [] then ['':'' @ Check_Path task] else [])\<rparr>"

definition restoreTask :: "Task \<Rightarrow> RestoreConfig \<Rightarrow> wakeup list \<Rightarrow> action list \<times> loop_end" where
  "restoreTask taskset task =
     restoreTask_loop taskset
       \<lparr>rs_OptJob = Task_Name taskset, rs_Target = Restore_Target task, rs_Silent = True,
        rs_Snapshots = (if Restore_Path task \<noteq> [] then ['':'' @ Restore_Path task] else [])\<rparr>"

definition syncTask :: "Task \<Rightarrow> SyncConfig \<Rightarrow> wakeup list \<Rightarrow> action list \<times> loop_end" where
  "syncTask taskset task ws =
     (if Sync_Direction task = SyncDirectionTo then
        syncTask_loop taskset
          \<lparr>sy_PeerRepositoryLocation = Sync_Peer task, sy_Direction = ''to''\<rparr> ws
      else if Sync_Direction task = SyncDirectionFrom then
        syncTask_loop taskset
          \<lparr>sy_PeerRepositoryLocation = Sync_Peer task, sy_Direction = ''from''\<rparr> ws
      else if Sync_Direction task = SyncDirectionWith then
        syncTask_loop taskset
          \<lparr>sy_PeerRepositoryLocation = Sync_Peer task, sy_Direction = ''with''\<rparr> ws
      else ([CtxCancel], Returned))"

definition maintenanceTask ::
  "LocateOptions \<Rightarrow> MaintenanceConfig \<Rightarrow> wakeup list \<Rightarrow> action list \<times> loop_end" where
  "maintenanceTask NewDefaultLocateOptions task =
     maintenanceTask_loop task
       \<lparr>rm_LocateOptions = NewDefaultLocateOptions\<lparr>lo_Job := ''maintenance''\<rparr>\<rparr>"

text \<open>Readings of a trace: the stores and repositories obtained and closed, the calls on
  a report, the calls that finalize a report, and the purges run.\<close>

fun store_opened :: "action \<Rightarrow> store list" where
  "store_opened (StorageOpen s) = [s]"
| "store_opened a = []"

fun store_closed :: "action \<Rightarrow> store list" where
  "store_closed (StoreClose s) = [s]"
| "store_closed a = []"

fun repo_opened :: "action \<Rightarrow> repo list" where
  "repo_opened (RepositoryNew r) = [r]"
| "repo_opened a = []"

fun repo_closed :: "action \<Rightarrow> repo list" where
  "repo_closed (RepoClose r) = [r]"
| "repo_closed a = []"

fun is_report :: "action \<Rightarrow> bool" where
  "is_report NewReport = True"
| "is_report (TaskStart k n) = True"
| "is_report (WithRepositoryName n) = True"
| "is_report (WithRepository r) = True"
| "is_report (WithSnapshotID i) = True"
| "is_report (TaskFailed c f as) = True"
| "is_report (TaskWarning f as) = True"
| "is_report TaskDone = True"
| "is_report a = False"

fun is_final :: "action \<Rightarrow> bool" where
  "is_final (TaskFailed c f as) = True"
| "is_final (TaskWarning f as) = True"
| "is_final TaskDone = True"
| "is_final a = False"

fun purge :: "action \<Rightarrow> (time \<times> repo) list" where
  "purge (RmExecute rm r) = [(lo_Before (rm_LocateOptions rm), r)]"
| "purge a = []"

definition opened_stores :: "action list \<Rightarrow> store list" where
  "opened_stores acts = concat (map store_opened acts)"

definition closed_stores :: "action list \<Rightarrow> store list" where
  "closed_stores acts = concat (map store_closed acts)"

definition opened_repos :: "action list \<Rightarrow> repo list" where
  "opened_repos acts = concat (map repo_opened acts)"

definition closed_repos :: "action list \<Rightarrow> repo list" where
  "closed_repos acts = concat (map repo_closed acts)"

definition purges :: "action list \<Rightarrow> (time \<times> repo) list" where
  "purges acts = concat (map purge acts)"

section \<open>Predicates of the statements, and concrete inputs\<close>

text \<open>Which requests install a configuration: a \<open>configure\<close> whose payload parses.\<close>

definition applies_configuration :: "parser \<Rightarrow> Request option \<Rightarrow> bool" where
  "applies_configuration P r =
     (case r of
        None \<Rightarrow> False
      | Some q \<Rightarrow> Type q = ''configure'' \<and> (case P (Payload q) of Inl _ \<Rightarrow> False | Inr _ \<Rightarrow> True))"

text \<open>What holds of the singleton in every state the daemon reaches; the last conjunct
  says that the stored context is one that has been handed out.\<close>

definition singleton_ok :: "daemon \<Rightarrow> bool" where
  "singleton_ok d =
     ((schedulerState (schedulerContextSingleton d) = AGENT_SCHEDULER_STOPPED \<or>
       schedulerState (schedulerContextSingleton d) = AGENT_SCHEDULER_RUNNING) \<and>
      ((schedulerState (schedulerContextSingleton d) = AGENT_SCHEDULER_RUNNING) =
         (schedulerCtx (schedulerContextSingleton d) \<noteq> None)) \<and>
      (schedulerState (schedulerContextSingleton d) = AGENT_SCHEDULER_RUNNING \<longrightarrow>
         schedulerConfig (schedulerContextSingleton d) \<noteq> None) \<and>
      (\<forall>c. schedulerCtx (schedulerContextSingleton d) = Some c \<longrightarrow> c < nextCtx d))"

text \<open>A parser that rejects the empty payload, and the daemon after a \<open>configure\<close>
  and a \<open>start\<close>.\<close>

definition demo_parser :: parser where
  "demo_parser b = (if b = [] then Inl ''empty configuration'' else Inr \<lparr>Jobs = Map.empty\<rparr>)"

definition demo_running :: daemon where
  "demo_running =
     \<lparr>schedulerContextSingleton =
        \<lparr>agentCtx = 0, schedulerCtx = Some 1, schedulerConfig = Some \<lparr>Jobs = Map.empty\<rparr>,
         schedulerState = 1\<rparr>,
      nextCtx = 2, effects = [Run 1 \<lparr>Jobs = Map.empty\<rparr>]\<rparr>"

text \<open>A configuration with two jobs: one with a schedule that plans an instant before,
  at and after the date, and one with no schedule.\<close>

definition demo_schedule :: Schedule where
  "demo_schedule = \<lparr>PlanForDate = (\<lambda>d. [d - 50, d, d + 50])\<rparr>"

definition demo_job :: Job where
  "demo_job = \<lparr>Schedules = [demo_schedule]\<rparr>"

definition demo_idle_job :: Job where
  "demo_idle_job = \<lparr>Schedules = []\<rparr>"

definition demo_config :: Configuration where
  "demo_config = \<lparr>Jobs = [''nightly'' \<mapsto> demo_job, ''idle'' \<mapsto> demo_idle_job]\<rparr>"

definition demo_service :: SchedulerService where
  "demo_service = \<lparr>config = demo_config, sched = \<lparr>pending = [], nextEvent = 0\<rparr>, heap = [], log = []\<rparr>"

text \<open>A world in which the repository loads, every operation but the purge succeeds
  and the purge fails; the same world with a configuration that does not load; and the
  arguments of the loops.\<close>

definition demo_world :: world where
  "demo_world =
     \<lparr>Now = 1000000, GetSecret = None, ReloadConfig = None,
      GetRepository = (\<lambda>name. Inr Map.empty),
      storage_Open = (\<lambda>storeConfig. Inr (7, [])),
      NewConfigurationFromWrappedBytes =
        (\<lambda>config. Inr \<lparr>Version = 1, Encryption = \<lparr>KDFParams = []\<rparr>\<rparr>),
      current_Version = 1, Version_String = (\<lambda>v. ''1.0.0''), storage_VERSION = ''1.0.0'',
      DeriveKey = (\<lambda>params passphrase. Inl ''no key''),
      VerifyCanary = (\<lambda>encryption key. False),
      repository_New = (\<lambda>key store config. Inr 3),
      Backup_DoBackup = (\<lambda>b repo. (0, None, [], None)),
      Rm_Execute = (\<lambda>rm repo. (1, Some ''locked'')),
      Check_Execute = (\<lambda>c repo. (0, None)),
      Restore_Execute = (\<lambda>r repo. (0, None)),
      Sync_Execute = (\<lambda>y repo. (0, None)),
      Maintenance_Execute = (\<lambda>repo. (0, None))\<rparr>"

definition demo_world_down :: world where
  "demo_world_down = demo_world\<lparr>ReloadConfig := Some ''no such file''\<rparr>"

definition demo_taskset :: Task where
  "demo_taskset = \<lparr>Task_Name = ''nightly'', Task_Repository = ''vault''\<rparr>"

definition demo_backup :: BackupConfig where
  "demo_backup =
     \<lparr>Backup_Name = ''nightly'', Backup_Path = ''/srv'', Backup_Check_Enabled = False,
      Backup_Retention = 1000\<rparr>"

text \<open>The same backup task with the least \<open>int64\<close> as its retention.\<close>

definition demo_backup_least :: BackupConfig where
  "demo_backup_least = demo_backup\<lparr>Backup_Retention := - 9223372036854775808\<rparr>"

definition demo_maintenance :: MaintenanceConfig where
  "demo_maintenance = \<lparr>Maintenance_Repository = ''vault'', Maintenance_Retention = 1000\<rparr>"

definition demo_backup_cmd :: Backup where
  "demo_backup_cmd =
     \<lparr>bk_Silent = True, bk_Job = ''nightly'', bk_Path = ''/srv'', bk_Quiet = True,
      bk_Opts = [], bk_OptCheck = False\<rparr>"

definition demo_rm :: Rm where
  "demo_rm = \<lparr>rm_LocateOptions = \<lparr>lo_Job = ''nightly'', lo_Latest = False, lo_Before = 0\<rparr>\<rparr>"

definition demo_check :: Check where
  "demo_check =
     \<lparr>ck_LocateOptions = \<lparr>lo_Job = ''nightly'', lo_Latest = False, lo_Before = 0\<rparr>,
      ck_Silent = True, ck_Snapshots = []\<rparr>"

definition demo_restore :: Restore where
  "demo_restore =
     \<lparr>rs_OptJob = ''nightly'', rs_Target = ''/tmp/out'', rs_Silent = True, rs_Snapshots = []\<rparr>"

definition demo_sync :: Sync where
  "demo_sync = \<lparr>sy_PeerRepositoryLocation = ''peer'', sy_Direction = ''to''\<rparr>"

section \<open>Properties of the control plane\<close>

lemmas handler_defs =
  startTasks_def stopTasks_def terminate_def stop_def configureTasks_def
  NewAppContextFrom_def emit_def respond_def
  AGENT_SCHEDULER_STOPPED_def AGENT_SCHEDULER_RUNNING_def

lemma singleton_ok_init: "singleton_ok (Execute_init a)"
  by (simp add: singleton_ok_def Execute_init_def handler_defs)

lemma startTasks_ok: "singleton_ok d \<Longrightarrow> singleton_ok (snd (startTasks d))"
  by (auto simp: singleton_ok_def handler_defs Let_def split: option.splits)

lemma stopTasks_ok: "singleton_ok d \<Longrightarrow> \<exists>r d'. stopTasks d = Some (r, d') \<and> singleton_ok d'"
  by (auto simp: singleton_ok_def handler_defs Let_def split: option.splits)

lemma terminate_ok: "singleton_ok d \<Longrightarrow> singleton_ok (snd (terminate d))"
  by (auto simp: singleton_ok_def handler_defs Let_def split: option.splits)

lemma configureTasks_ok: "singleton_ok d \<Longrightarrow> singleton_ok (snd (configureTasks P b d))"
  by (auto simp: singleton_ok_def handler_defs Let_def split: option.splits sum.splits)

lemma handleClient_ok:
  assumes "singleton_ok d"
  shows "\<exists>resp d'. handleClient P r d = Some (resp, d') \<and> singleton_ok d'"
proof (cases r)
  case None
  with assms show ?thesis by (simp add: handleClient_def)
next
  case (Some q)
  from stopTasks_ok [OF assms] obtain r0 d0 where
    st: "stopTasks d = Some (r0, d0)" "singleton_ok d0" by blast
  show ?thesis
    using Some assms st startTasks_ok [OF assms] terminate_ok [OF assms]
      configureTasks_ok [OF assms, of P "Payload q"]
    by (auto simp: handleClient_def split: prod.splits)
qed

lemma serve_ok: "singleton_ok d \<Longrightarrow> \<exists>d'. serve P rs d = Some d' \<and> singleton_ok d'"
proof (induction rs arbitrary: d)
  case Nil
  then show ?case by simp
next
  case (Cons r rs)
  from handleClient_ok [OF Cons.prems, of P r] obtain resp d1 where
    h: "handleClient P r d = Some (resp, d1)" "singleton_ok d1" by blast
  from Cons.IH [OF h(2)] h(1) show ?case by simp
qed

lemma handleClient_no_config:
  assumes "handleClient P r d = Some (resp, d')"
    and "\<not> applies_configuration P r"
    and "schedulerConfig (schedulerContextSingleton d) = None"
  shows "schedulerConfig (schedulerContextSingleton d') = None"
  using assms
  by (cases r)
     (auto simp: handleClient_def applies_configuration_def handler_defs Let_def
           split: if_splits option.splits sum.splits prod.splits)

lemma serve_no_config:
  "serve P rs d = Some d' \<Longrightarrow> \<forall>r\<in>set rs. \<not> applies_configuration P r \<Longrightarrow>
   schedulerConfig (schedulerContextSingleton d) = None \<Longrightarrow>
   schedulerConfig (schedulerContextSingleton d') = None"
proof (induction rs arbitrary: d)
  case Nil
  then show ?case by simp
next
  case (Cons r rs)
  from Cons.prems(1) obtain resp d1 where
    h: "handleClient P r d = Some (resp, d1)" "serve P rs d1 = Some d'"
    by (auto split: option.splits)
  from handleClient_no_config [OF h(1)] Cons.prems
  have "schedulerConfig (schedulerContextSingleton d1) = None" by simp
  with Cons.IH [OF h(2)] Cons.prems show ?case by simp
qed

lemma demo_running_reached:
  "serve demo_parser [Some \<lparr>Type = ''configure'', Payload = [1]\<rparr>, Some \<lparr>Type = ''start'', Payload = []\<rparr>]
     (Execute_init 0) = Some demo_running"
  by (simp add: demo_running_def demo_parser_def handleClient_def Execute_init_def handler_defs)


text \<open>
  C1. After any sequence of requests: a \<open>start\<close> when no configuration has ever been
  applied is answered with exit code 1 and "agent scheduler does not have a
  configuration"; a \<open>start\<close> while the run state is RUNNING with exit code 1 and "agent
  scheduler already running"; a \<open>stop\<close> while the run state is STOPPED with exit code 1
  and "agent scheduler not running". In each case the daemon's state, the singleton
  included, is what it was.
\<close>

theorem control_plane_conflicts:
  assumes "serve P rs (Execute_init a) = Some d"
  shows "((\<forall>r\<in>set rs. \<not> applies_configuration P r) \<longrightarrow>
            handleClient P (Some \<lparr>Type = ''start'', Payload = p\<rparr>) d =
              Some (Some \<lparr>ExitCode = 1, Err = ''agent scheduler does not have a configuration''\<rparr>, d)) \<and>
         (schedulerState (schedulerContextSingleton d) = AGENT_SCHEDULER_RUNNING \<longrightarrow>
            handleClient P (Some \<lparr>Type = ''start'', Payload = p\<rparr>) d =
              Some (Some \<lparr>ExitCode = 1, Err = ''agent scheduler already running''\<rparr>, d)) \<and>
         (schedulerState (schedulerContextSingleton d) = AGENT_SCHEDULER_STOPPED \<longrightarrow>
            handleClient P (Some \<lparr>Type = ''stop'', Payload = p\<rparr>) d =
              Some (Some \<lparr>ExitCode = 1, Err = ''agent scheduler not running''\<rparr>, d))"
proof (intro conjI impI)
  assume "\<forall>r\<in>set rs. \<not> applies_configuration P r"
  with serve_no_config [OF assms]
  have "schedulerConfig (schedulerContextSingleton d) = None"
    by (simp add: Execute_init_def)
  then show "handleClient P (Some \<lparr>Type = ''start'', Payload = p\<rparr>) d =
      Some (Some \<lparr>ExitCode = 1, Err = ''agent scheduler does not have a configuration''\<rparr>, d)"
    by (simp add: handleClient_def startTasks_def respond_def Let_def)
next
  from serve_ok [OF singleton_ok_init, of P rs a] assms
  have ok: "singleton_ok d" by simp
  assume "schedulerState (schedulerContextSingleton d) = AGENT_SCHEDULER_RUNNING"
  with ok show "handleClient P (Some \<lparr>Type = ''start'', Payload = p\<rparr>) d =
      Some (Some \<lparr>ExitCode = 1, Err = ''agent scheduler already running''\<rparr>, d)"
    by (auto simp: handleClient_def startTasks_def respond_def singleton_ok_def
          AGENT_SCHEDULER_RUNNING_def Let_def split: option.splits)
next
  assume "schedulerState (schedulerContextSingleton d) = AGENT_SCHEDULER_STOPPED"
  then show "handleClient P (Some \<lparr>Type = ''stop'', Payload = p\<rparr>) d =
      Some (Some \<lparr>ExitCode = 1, Err = ''agent scheduler not running''\<rparr>, d)"
    by (simp add: handleClient_def stopTasks_def respond_def Let_def
          AGENT_SCHEDULER_STOPPED_def)
qed

theorem control_plane_conflicts_witness:
  "handleClient demo_parser (Some \<lparr>Type = ''start'', Payload = []\<rparr>) (Execute_init 0) =
     Some (Some \<lparr>ExitCode = 1, Err = ''agent scheduler does not have a configuration''\<rparr>, Execute_init 0) \<and>
   handleClient demo_parser (Some \<lparr>Type = ''stop'', Payload = []\<rparr>) (Execute_init 0) =
     Some (Some \<lparr>ExitCode = 1, Err = ''agent scheduler not running''\<rparr>, Execute_init 0) \<and>
   handleClient demo_parser (Some \<lparr>Type = ''start'', Payload = []\<rparr>) demo_running =
     Some (Some \<lparr>ExitCode = 1, Err = ''agent scheduler already running''\<rparr>, demo_running)"
proof -
  have s0: "serve demo_parser [] (Execute_init 0) = Some (Execute_init 0)" by simp
  have st0: "schedulerState (schedulerContextSingleton (Execute_init 0)) = AGENT_SCHEDULER_STOPPED"
    by (simp add: Execute_init_def AGENT_SCHEDULER_STOPPED_def)
  have st1: "schedulerState (schedulerContextSingleton demo_running) = AGENT_SCHEDULER_RUNNING"
    by (simp add: demo_running_def AGENT_SCHEDULER_RUNNING_def)
  show ?thesis
    using control_plane_conflicts [OF s0, of "[]"]
      control_plane_conflicts [OF demo_running_reached, of "[]"] st0 st1
    by simp
qed


text \<open>
  C2. A \<open>configure\<close> whose payload parses stores the new configuration whatever the run
  state, which it leaves as it is. With an execution context stored, it cancels that
  context, and nothing else, and launches one Scheduler Service, on a new context and
  under the new configuration, within the same request. With no context stored it
  creates none and cancels and launches nothing.
\<close>

theorem configure_applies:
  assumes "P b = Inr cfg"
  shows "fst (configureTasks P b d) = (0, None) \<and>
         schedulerConfig (schedulerContextSingleton (snd (configureTasks P b d))) = Some cfg \<and>
         schedulerState (schedulerContextSingleton (snd (configureTasks P b d))) =
           schedulerState (schedulerContextSingleton d) \<and>
         (case schedulerCtx (schedulerContextSingleton d) of
            None \<Rightarrow>
              schedulerCtx (schedulerContextSingleton (snd (configureTasks P b d))) = None \<and>
              effects (snd (configureTasks P b d)) = effects d \<and>
              nextCtx (snd (configureTasks P b d)) = nextCtx d
          | Some old \<Rightarrow>
              schedulerCtx (schedulerContextSingleton (snd (configureTasks P b d))) = Some (nextCtx d) \<and>
              effects (snd (configureTasks P b d)) = effects d @ [Cancel old, Run (nextCtx d) cfg] \<and>
              nextCtx (snd (configureTasks P b d)) = Suc (nextCtx d))"
proof (cases "schedulerCtx (schedulerContextSingleton d)")
  case None
  with assms show ?thesis
    by (simp add: configureTasks_def)
next
  case (Some old)
  with assms show ?thesis
    by (simp add: configureTasks_def NewAppContextFrom_def emit_def)
qed

theorem configure_applies_witness:
  "demo_parser [1] = Inr \<lparr>Jobs = Map.empty\<rparr> \<and>
   fst (configureTasks demo_parser [1] demo_running) = (0, None) \<and>
   schedulerConfig (schedulerContextSingleton (snd (configureTasks demo_parser [1] demo_running)))
     = Some \<lparr>Jobs = Map.empty\<rparr> \<and>
   schedulerCtx (schedulerContextSingleton (snd (configureTasks demo_parser [1] demo_running))) = Some 2 \<and>
   effects (snd (configureTasks demo_parser [1] demo_running)) =
     [Run 1 \<lparr>Jobs = Map.empty\<rparr>, Cancel 1, Run 2 \<lparr>Jobs = Map.empty\<rparr>] \<and>
   schedulerConfig (schedulerContextSingleton (snd (configureTasks demo_parser [1] (Execute_init 0))))
     = Some \<lparr>Jobs = Map.empty\<rparr> \<and>
   schedulerCtx (schedulerContextSingleton (snd (configureTasks demo_parser [1] (Execute_init 0)))) = None \<and>
   effects (snd (configureTasks demo_parser [1] (Execute_init 0))) = []"
proof -
  have p: "demo_parser [1] = Inr \<lparr>Jobs = Map.empty\<rparr>" by (simp add: demo_parser_def)
  have c: "schedulerCtx (schedulerContextSingleton demo_running) = Some 1"
    "schedulerCtx (schedulerContextSingleton (Execute_init 0)) = None"
    by (simp_all add: demo_running_def Execute_init_def)
  have n: "nextCtx demo_running = 2" "effects demo_running = [Run 1 \<lparr>Jobs = Map.empty\<rparr>]"
    "effects (Execute_init 0) = []"
    by (simp_all add: demo_running_def Execute_init_def)
  show ?thesis
    using configure_applies [of demo_parser "[1]" "\<lparr>Jobs = Map.empty\<rparr>" demo_running]
      configure_applies [of demo_parser "[1]" "\<lparr>Jobs = Map.empty\<rparr>" "Execute_init 0"] p c n
    by simp
qed

text \<open>
  C9. Every sequence of requests (start, stop, configure, terminate, unknown or
  undecodable ones) served from the initial singleton ends, without a panic, in a state
  where the run state is RUNNING exactly when an execution context is stored, and where
  a configuration is stored whenever the run state is RUNNING.
\<close>

theorem singleton_invariant:
  "\<exists>d. serve P rs (Execute_init a) = Some d \<and>
       ((schedulerState (schedulerContextSingleton d) = AGENT_SCHEDULER_RUNNING) =
          (schedulerCtx (schedulerContextSingleton d) \<noteq> None)) \<and>
       (schedulerState (schedulerContextSingleton d) = AGENT_SCHEDULER_RUNNING \<longrightarrow>
          schedulerConfig (schedulerContextSingleton d) \<noteq> None)"
  using serve_ok [OF singleton_ok_init, of P rs a]
  by (auto simp: singleton_ok_def)

theorem singleton_invariant_witness:
  "schedulerState (schedulerContextSingleton demo_running) = AGENT_SCHEDULER_RUNNING \<and>
   schedulerCtx (schedulerContextSingleton demo_running) \<noteq> None \<and>
   schedulerConfig (schedulerContextSingleton demo_running) \<noteq> None"
  using singleton_invariant [of demo_parser
      "[Some \<lparr>Type = ''configure'', Payload = [1]\<rparr>, Some \<lparr>Type = ''start'', Payload = []\<rparr>]" 0]
    demo_running_reached
  by (simp add: demo_running_def AGENT_SCHEDULER_RUNNING_def)


text \<open>
  C10. A \<open>configure\<close> whose payload does not parse returns the parse error with exit
  code 1 and leaves the daemon as it was: stored configuration, run state and execution
  context unchanged, nothing cancelled, nothing launched.
\<close>

theorem configure_parse_error:
  assumes "P b = Inl e"
  shows "configureTasks P b d = ((1, Some e), d) \<and>
         handleClient P (Some \<lparr>Type = ''configure'', Payload = b\<rparr>) d =
           Some (Some \<lparr>ExitCode = 1, Err = e\<rparr>, d)"
  using assms by (simp add: configureTasks_def handleClient_def respond_def)

theorem configure_parse_error_witness:
  "demo_parser [] = Inl ''empty configuration'' \<and>
   configureTasks demo_parser [] demo_running = ((1, Some ''empty configuration''), demo_running) \<and>
   handleClient demo_parser (Some \<lparr>Type = ''configure'', Payload = []\<rparr>) demo_running =
     Some (Some \<lparr>ExitCode = 1, Err = ''empty configuration''\<rparr>, demo_running)"
proof -
  have p: "demo_parser [] = Inl ''empty configuration''" by (simp add: demo_parser_def)
  show ?thesis using p configure_parse_error [of demo_parser "[]" _ demo_running] by simp
qed

section \<open>Properties of the Scheduler Service\<close>

text \<open>The loops of \<open>ScheduleForDate\<close> in closed form: a call appends engine entries,
  structs and log lines, and changes nothing else.\<close>

lemma entries_from_append:
  "entries_from n m (xs @ ys) =
     entries_from n m xs @ entries_from (n + length xs) (m + length xs) ys"
  by (induction xs arbitrary: n m) simp_all

lemma structs_from_append:
  "structs_from n (xs @ ys) = structs_from n xs @ structs_from (n + length xs) ys"
  by (induction xs arbitrary: n) simp_all

lemma length_entries_from [simp]: "length (entries_from n m xs) = length xs"
  by (induction xs arbitrary: n m) simp_all

lemma length_structs_from [simp]: "length (structs_from n xs) = length xs"
  by (induction xs arbitrary: n) simp_all

lemma arm_all_Nil: "arm_all [] [] s = s"
  by (simp add: arm_all_def)

lemma arm_all_arm_all:
  "arm_all ys ls' (arm_all xs ls s) = arm_all (xs @ ys) (ls @ ls') s"
  by (simp add: arm_all_def entries_from_append structs_from_append add.assoc)

lemma config_arm_all [simp]: "config (arm_all xs ls s) = config s"
  by (simp add: arm_all_def)

lemma schedule_time_arm_all:
  "schedule_time date name jb t s =
     arm_all (if t < date then [] else [(jb, t)])
       [if t < date then Debug ''job %q: ignore for past time %v'' [AStr name, ATime t]
        else Debug ''job %q: scheduled for %v'' [AStr name, ATime t]] s"
  by (simp add: schedule_time_def arm_all_def logger_def ScheduleAt_def time_Before_def Let_def)

lemma plan_loop_arm_all:
  "plan_loop date name jb plan s =
     arm_all (map (Pair jb) (filter (\<lambda>t. \<not> t < date) plan))
       (map (\<lambda>t. if t < date
                 then Debug ''job %q: ignore for past time %v'' [AStr name, ATime t]
                 else Debug ''job %q: scheduled for %v'' [AStr name, ATime t]) plan) s"
proof (induction plan arbitrary: s)
  case Nil
  show ?case by (simp add: arm_all_Nil)
next
  case (Cons t plan)
  show ?case
    by (simp only: plan_loop.simps Cons.IH schedule_time_arm_all arm_all_arm_all) simp
qed


lemma schedules_loop_arm_all:
  "schedules_loop date name jb ss s =
     arm_all (concat (map (sched_arms date jb) ss)) (concat (map (sched_log date name) ss)) s"
proof (induction ss arbitrary: s)
  case Nil
  show ?case by (simp add: arm_all_Nil)
next
  case (Cons a ss)
  show ?case
    by (simp add: Cons.IH plan_loop_arm_all arm_all_arm_all sched_arms_def sched_log_def)
qed

lemma jobs_loop_arm_all:
  "jobs_loop date names s =
     arm_all (job_ready_spec (config s) names date) (plan_log_spec (config s) names date) s"
proof (induction names arbitrary: s)
  case Nil
  show ?case by (simp add: arm_all_Nil job_ready_spec_def plan_log_spec_def)
next
  case (Cons name names)
  show ?case
  proof (cases "Jobs (config s) name")
    case None
    then show ?thesis
      by (simp add: Cons.IH job_ready_spec_def plan_log_spec_def)
  next
    case (Some jb)
    have a: "job_ready_spec (config s) (name # names) date =
        concat (map (sched_arms date jb) (Schedules jb)) @ job_ready_spec (config s) names date"
      using Some by (simp add: job_ready_spec_def sched_arms_def [abs_def])
    have l: "plan_log_spec (config s) (name # names) date =
        concat (map (sched_log date name) (Schedules jb)) @ plan_log_spec (config s) names date"
      using Some by (simp add: plan_log_spec_def sched_log_def [abs_def])
    show ?thesis
      using Some
      by (simp add: Cons.IH schedules_loop_arm_all arm_all_arm_all a l)
  qed
qed

lemma ScheduleForDate_arm_all:
  "ScheduleForDate order date s =
     arm_all (job_ready_spec (config s) order date)
       (Debug ''scheduling jobs for %v'' [ATime date] # plan_log_spec (config s) order date) s"
proof -
  have "logger (Debug ''scheduling jobs for %v'' [ATime date]) s =
      arm_all [] [Debug ''scheduling jobs for %v'' [ATime date]] s"
    by (simp add: logger_def arm_all_def)
  then show ?thesis
    by (simp add: ScheduleForDate_def jobs_loop_arm_all arm_all_arm_all)
qed

lemma read_entries:
  "map (\<lambda>(ev, sj, t). (job ((H @ structs_from n xs) ! sj), t)) (entries_from n (length H) xs) = xs"
proof (induction xs arbitrary: H n)
  case Nil
  show ?case by simp
next
  case (Cons x xs)
  have "map (\<lambda>(ev, sj, t). (job (((H @ [\<lparr>event = Some n, scheduled = snd x, job = fst x\<rparr>]) @
            structs_from (Suc n) xs) ! sj), t))
          (entries_from (Suc n) (length (H @ [\<lparr>event = Some n, scheduled = snd x, job = fst x\<rparr>])) xs) = xs"
    by (rule Cons.IH)
  then show ?case by simp
qed

lemma armed_by_arm_all: "armed_by s (arm_all xs ls s) = xs"
  by (simp add: armed_by_def arm_all_def read_entries)

lemma job_ready_spec_not_past:
  "(jb, t) \<in> set (job_ready_spec cfg order date) \<Longrightarrow> \<not> t < date"
  by (auto simp: job_ready_spec_def split: option.splits)

lemma job_ready_spec_mem:
  "name \<in> set order \<Longrightarrow> Jobs cfg name = Some jb \<Longrightarrow> schedule \<in> set (Schedules jb) \<Longrightarrow>
   t \<in> set (PlanForDate schedule date) \<Longrightarrow> \<not> t < date \<Longrightarrow>
   (jb, t) \<in> set (job_ready_spec cfg order date)"
  by (force simp: job_ready_spec_def split: option.splits)

lemma job_ready_spec_same_keys:
  "set order = set order' \<Longrightarrow>
   set (job_ready_spec cfg order date) = set (job_ready_spec cfg order' date)"
  by (simp add: job_ready_spec_def)

lemma demo_visits:
  "visits (config demo_service) [''nightly'', ''idle'']"
  "visits (config demo_service) [''idle'', ''nightly'']"
  by (auto simp: visits_def demo_service_def demo_config_def)

lemma demo_armed:
  "armed_by demo_service (ScheduleForDate [''nightly'', ''idle''] 100 demo_service) =
     [(demo_job, 100), (demo_job, 150)]"
  by (simp add: ScheduleForDate_arm_all armed_by_arm_all job_ready_spec_def
        demo_service_def demo_config_def demo_job_def demo_idle_job_def demo_schedule_def)


text \<open>
  C3. For every configuration, every order in which the jobs are visited, every job,
  every schedule of it and every planning instant \<open>date\<close>: \<open>ScheduleForDate date\<close> arms
  a job-ready event for a timestamp of the schedule's plan for \<open>date\<close> exactly when the
  timestamp is not strictly before \<open>date\<close>. The events armed by the call are, in order,
  the timestamps so kept of every plan, and nothing else; a timestamp strictly before
  \<open>date\<close> gets its line in the log and no event. The engine delivers only what was
  armed, so nothing is dispatched for such a timestamp either.
\<close>

theorem ScheduleForDate_arms:
  assumes "visits (config s) order"
    and "Jobs (config s) name = Some jb"
    and "schedule \<in> set (Schedules jb)"
  shows "armed_by s (ScheduleForDate order date s) = job_ready_spec (config s) order date \<and>
         log (ScheduleForDate order date s) =
           log s @ Debug ''scheduling jobs for %v'' [ATime date] # plan_log_spec (config s) order date \<and>
         (\<forall>t\<in>set (PlanForDate schedule date).
            ((jb, t) \<in> set (armed_by s (ScheduleForDate order date s))) = (\<not> t < date) \<and>
            (t < date \<longrightarrow>
               Debug ''job %q: ignore for past time %v'' [AStr name, ATime t]
                 \<in> set (log (ScheduleForDate order date s)))) \<and>
         (\<forall>x\<in>set (armed_by s (ScheduleForDate order date s)). \<not> snd x < date)"
proof -
  have armed: "armed_by s (ScheduleForDate order date s) = job_ready_spec (config s) order date"
    by (simp add: ScheduleForDate_arm_all armed_by_arm_all)
  have logged: "log (ScheduleForDate order date s) =
      log s @ Debug ''scheduling jobs for %v'' [ATime date] # plan_log_spec (config s) order date"
    by (simp add: ScheduleForDate_arm_all arm_all_def)
  from assms(1,2) have name: "name \<in> set order"
    by (auto simp: visits_def)
  have "((jb, t) \<in> set (job_ready_spec (config s) order date)) = (\<not> t < date)"
    if "t \<in> set (PlanForDate schedule date)" for t
    using job_ready_spec_not_past [of jb t "config s" order date]
      job_ready_spec_mem [OF name assms(2,3) that]
    by blast
  moreover have "Debug ''job %q: ignore for past time %v'' [AStr name, ATime t]
        \<in> set (plan_log_spec (config s) order date)"
    if "t \<in> set (PlanForDate schedule date)" "t < date" for t
    using that name assms(2,3)
    by (force simp: plan_log_spec_def split: option.splits)
  moreover have "\<not> snd x < date" if "x \<in> set (job_ready_spec (config s) order date)" for x
    using that job_ready_spec_not_past [of "fst x" "snd x"] by simp
  ultimately show ?thesis
    by (simp add: armed logged)
qed

theorem ScheduleForDate_arms_witness:
  "armed_by demo_service (ScheduleForDate [''nightly'', ''idle''] 100 demo_service) =
     [(demo_job, 100), (demo_job, 150)] \<and>
   (demo_job, 50) \<notin> set (armed_by demo_service (ScheduleForDate [''nightly'', ''idle''] 100 demo_service)) \<and>
   Debug ''job %q: ignore for past time %v'' [AStr ''nightly'', ATime 50]
     \<in> set (log (ScheduleForDate [''nightly'', ''idle''] 100 demo_service))"
proof -
  have j: "Jobs (config demo_service) ''nightly'' = Some demo_job"
    by (simp add: demo_service_def demo_config_def)
  have sc: "demo_schedule \<in> set (Schedules demo_job)"
    by (simp add: demo_job_def)
  have p: "PlanForDate demo_schedule 100 = [50, 100, 150]"
    by (simp add: demo_schedule_def)
  let ?s' = "ScheduleForDate [''nightly'', ''idle''] 100 demo_service"
  from ScheduleForDate_arms [OF demo_visits(1) j sc, of 100]
  have "\<forall>t\<in>set (PlanForDate demo_schedule 100).
          ((demo_job, t) \<in> set (armed_by demo_service ?s')) = (\<not> t < 100) \<and>
          (t < 100 \<longrightarrow>
             Debug ''job %q: ignore for past time %v'' [AStr ''nightly'', ATime t] \<in> set (log ?s'))"
    by blast
  then have "(demo_job, 50) \<notin> set (armed_by demo_service ?s')"
    and "Debug ''job %q: ignore for past time %v'' [AStr ''nightly'', ATime 50] \<in> set (log ?s')"
    by (simp_all add: p)
  with demo_armed show ?thesis
    by blast
qed


text \<open>
  C7. For a fixed configuration and date, a second call of \<open>ScheduleForDate\<close> arms the
  same set of (job, timestamp) events as the first, whatever the orders in which the
  two calls visit the jobs; visiting them in the same order, it arms the same list. The
  plan of a schedule is a function of the date, which is the purity the claim assumes.
\<close>

theorem ScheduleForDate_twice:
  assumes "visits (config s) order" and "visits (config s) order'"
  shows "set (armed_by (ScheduleForDate order date s)
                (ScheduleForDate order' date (ScheduleForDate order date s))) =
         set (armed_by s (ScheduleForDate order date s)) \<and>
         armed_by (ScheduleForDate order date s)
                (ScheduleForDate order date (ScheduleForDate order date s)) =
         armed_by s (ScheduleForDate order date s)"
proof -
  from assms have "set order = set order'"
    by (simp add: visits_def)
  from job_ready_spec_same_keys [OF this]
  show ?thesis
    by (simp add: ScheduleForDate_arm_all armed_by_arm_all)
qed

theorem ScheduleForDate_twice_witness:
  "set (armed_by (ScheduleForDate [''nightly'', ''idle''] 100 demo_service)
          (ScheduleForDate [''idle'', ''nightly''] 100
             (ScheduleForDate [''nightly'', ''idle''] 100 demo_service))) =
   {(demo_job, 100), (demo_job, 150)}"
  using ScheduleForDate_twice [OF demo_visits, of 100] demo_armed
  by simp

section \<open>Properties of the Task Runner Loops\<close>

lemmas reading_defs =
  opened_stores_def closed_stores_def opened_repos_def closed_repos_def purges_def

lemma passphrase_secret_actions:
  "passphrase_secret w rc sc = Inr keyed \<Longrightarrow>
     opened_stores (fst keyed) = [] \<and> closed_stores (fst keyed) = [] \<and>
     opened_repos (fst keyed) = [] \<and> closed_repos (fst keyed) = [] \<and>
     purges (fst keyed) = [] \<and> filter is_report (fst keyed) = []"
  by (auto simp: passphrase_secret_def reading_defs split: option.splits sum.splits if_splits)

lemma readings_append [simp]:
  "opened_stores (xs @ ys) = opened_stores xs @ opened_stores ys"
  "closed_stores (xs @ ys) = closed_stores xs @ closed_stores ys"
  "opened_repos (xs @ ys) = opened_repos xs @ opened_repos ys"
  "closed_repos (xs @ ys) = closed_repos xs @ closed_repos ys"
  "purges (xs @ ys) = purges xs @ purges ys"
  by (simp_all add: reading_defs)

lemma readings_Cons [simp]:
  "opened_stores (x # xs) = store_opened x @ opened_stores xs"
  "closed_stores (x # xs) = store_closed x @ closed_stores xs"
  "opened_repos (x # xs) = repo_opened x @ opened_repos xs"
  "closed_repos (x # xs) = repo_closed x @ closed_repos xs"
  "purges (x # xs) = purge x @ purges xs"
  by (simp_all add: reading_defs)

lemma readings_Nil [simp]:
  "opened_stores [] = []" "closed_stores [] = []" "opened_repos [] = []"
  "closed_repos [] = []" "purges [] = []"
  by (simp_all add: reading_defs)

lemma loadRepository_failed:
  assumes "loadRepository w name = (la, LoadFailed st e)"
  shows "closed_stores la = opened_stores la \<and> length (opened_stores la) \<le> 1 \<and>
         opened_repos la = [] \<and> closed_repos la = [] \<and>
         purges la = [] \<and> filter is_report la = []"
  using assms
  by (auto simp: loadRepository_def Let_def dest!: passphrase_secret_actions
        split: option.splits sum.splits if_splits)

lemma loadRepository_loaded:
  assumes "loadRepository w name = (la, Loaded repo store)"
  shows "opened_stores la = [store] \<and> closed_stores la = [] \<and>
         opened_repos la = [repo] \<and> closed_repos la = [] \<and>
         purges la = [] \<and> filter is_report la = []"
  using assms
  by (auto simp: loadRepository_def Let_def dest!: passphrase_secret_actions
        split: option.splits sum.splits if_splits)







lemma demo_load:
  "loadRepository demo_world ''vault'' = ([StorageOpen 7, RepositoryNew 3], Loaded 3 7)"
  by (simp add: loadRepository_def passphrase_secret_def demo_world_def)

lemma demo_load_down:
  "loadRepository demo_world_down ''vault'' =
     ([], LoadFailed None ''could not load configuration: no such file'')"
  by (simp add: loadRepository_def demo_world_down_def demo_world_def)

text \<open>The cutoff of the purge is computed as the code writes it, with the negation of
  an \<open>int64\<close>. It is the instant \<open>Retention\<close> before now for every retention but the
  least \<open>int64\<close>, whose negation is itself.\<close>

lemma sint_neg_64:
  fixes w :: "64 word"
  assumes "w \<noteq> - (2 ^ 63)"
  shows "sint (- w) = - sint w"
proof -
  have ne: "sint w \<noteq> - (2 ^ 63)"
  proof
    assume "sint w = - (2 ^ 63)"
    then have "word_of_int (sint w) = (word_of_int (- (2 ^ 63)) :: 64 word)" by simp
    then have "w = - (2 ^ 63)" by simp
    with assms show False by simp
  qed
  have lo: "- (2 ^ 63) \<le> sint w" using sint_ge [of w] by simp
  have hi: "sint w < 2 ^ 63" using sint_lt [of w] by simp
  have "sint (- w) = signed_take_bit 63 (- sint w)"
    using sint_word_ariths(4) [of w] by simp
  also have "\<dots> = - sint w"
    using ne lo hi by (intro signed_take_bit_int_eq_self) simp_all
  finally show ?thesis .
qed

lemma time_Add_neg:
  "retention \<noteq> - (2 ^ 63) \<Longrightarrow> time_Add t (- retention) = t - sint retention"
  by (simp add: time_Add_def sint_neg_64)


text \<open>
  C4, amended. On a tick of the backup loop or of the maintenance loop whose primary
  operation succeeds (no error, exit code 0): the purge is run exactly when \<open>Retention\<close>
  is not zero, once, with the cutoff \<open>now.Add(-Retention)\<close>, which is now minus
  \<open>Retention\<close> for every \<open>Retention\<close> other than the least \<open>int64\<close>; and when the purge
  fails (an error or an exit code other than 0) the one call that finalizes the report
  of the tick is \<open>TaskWarning\<close>, so the report is a warning and not a failure.
\<close>

theorem retention_purge:
  assumes "loadRepository w name = (la, Loaded repo store)"
    and "Rm_Execute w
           (rm\<lparr>rm_LocateOptions :=
                 (rm_LocateOptions rm)\<lparr>lo_Before := time_Add (Now w) (- retention)\<rparr>\<rparr>) repo =
         (rv, re)"
  shows "(Task_Repository taskset = name \<and> Backup_Retention btask = retention \<and>
          Backup_DoBackup w b repo = (0, None, snapId, warning) \<longrightarrow>
            purges (fst (backupTick w taskset btask b rm)) =
              (if retention = 0 then [] else [(time_Add (Now w) (- retention), repo)]) \<and>
            (retention \<noteq> - (2 ^ 63) \<longrightarrow>
               purges (fst (backupTick w taskset btask b rm)) =
                 (if retention = 0 then [] else [(Now w - sint retention, repo)])) \<and>
            (retention \<noteq> 0 \<and> (re \<noteq> None \<or> rv \<noteq> 0) \<longrightarrow>
               filter is_final (fst (backupTick w taskset btask b rm)) =
                 [TaskWarning ''Error removing obsolete backups: retval=%d, err=%s''
                    [AInt rv, AErr re]])) \<and>
         (Maintenance_Repository mtask = name \<and> Maintenance_Retention mtask = retention \<and>
          Maintenance_Execute w repo = (0, None) \<longrightarrow>
            purges (fst (maintenanceTick w mtask rm)) =
              (if retention = 0 then [] else [(time_Add (Now w) (- retention), repo)]) \<and>
            (retention \<noteq> - (2 ^ 63) \<longrightarrow>
               purges (fst (maintenanceTick w mtask rm)) =
                 (if retention = 0 then [] else [(Now w - sint retention, repo)])) \<and>
            (retention \<noteq> 0 \<and> (re \<noteq> None \<or> rv \<noteq> 0) \<longrightarrow>
               filter is_final (fst (maintenanceTick w mtask rm)) =
                 [TaskWarning ''Error removing obsolete backups: retval=%d, err=%s''
                    [AInt rv, AErr re]]))"
proof -
  from loadRepository_loaded [OF assms(1)]
  have la: "purges la = []" "filter is_report la = []" by simp_all
  have fin: "filter is_final la = []"
  proof -
    have "is_final a \<Longrightarrow> is_report a" for a by (cases a) simp_all
    with la(2) show ?thesis
      by (auto simp: filter_empty_conv)
  qed
  have code: "(Task_Repository taskset = name \<and> Backup_Retention btask = retention \<and>
          Backup_DoBackup w b repo = (0, None, snapId, warning) \<longrightarrow>
            purges (fst (backupTick w taskset btask b rm)) =
              (if retention = 0 then [] else [(time_Add (Now w) (- retention), repo)]) \<and>
            (retention \<noteq> 0 \<and> (re \<noteq> None \<or> rv \<noteq> 0) \<longrightarrow>
               filter is_final (fst (backupTick w taskset btask b rm)) =
                 [TaskWarning ''Error removing obsolete backups: retval=%d, err=%s''
                    [AInt rv, AErr re]])) \<and>
         (Maintenance_Repository mtask = name \<and> Maintenance_Retention mtask = retention \<and>
          Maintenance_Execute w repo = (0, None) \<longrightarrow>
            purges (fst (maintenanceTick w mtask rm)) =
              (if retention = 0 then [] else [(time_Add (Now w) (- retention), repo)]) \<and>
            (retention \<noteq> 0 \<and> (re \<noteq> None \<or> rv \<noteq> 0) \<longrightarrow>
               filter is_final (fst (maintenanceTick w mtask rm)) =
                 [TaskWarning ''Error removing obsolete backups: retval=%d, err=%s''
                    [AInt rv, AErr re]]))"
    using assms la(1) fin
    by (auto simp: backupTick_def maintenanceTick_def Let_def split: option.splits)
  have cutoff: "retention \<noteq> - (2 ^ 63) \<Longrightarrow>
      time_Add (Now w) (- retention) = Now w - sint retention"
    by (rule time_Add_neg)
  show ?thesis
  proof (cases "retention = - (2 ^ 63)")
    case True
    with code show ?thesis by simp
  next
    case False
    from cutoff [OF False] code show ?thesis by simp
  qed
qed


theorem retention_purge_witness:
  "purges (fst (backupTick demo_world demo_taskset demo_backup demo_backup_cmd demo_rm)) =
     [(999000, 3)] \<and>
   filter is_final (fst (backupTick demo_world demo_taskset demo_backup demo_backup_cmd demo_rm)) =
     [TaskWarning ''Error removing obsolete backups: retval=%d, err=%s'' [AInt 1, AErr (Some ''locked'')]] \<and>
   purges (fst (maintenanceTick demo_world demo_maintenance demo_rm)) = [(999000, 3)] \<and>
   filter is_final (fst (maintenanceTick demo_world demo_maintenance demo_rm)) =
     [TaskWarning ''Error removing obsolete backups: retval=%d, err=%s'' [AInt 1, AErr (Some ''locked'')]]"
proof -
  have rm: "Rm_Execute demo_world
      (demo_rm\<lparr>rm_LocateOptions :=
         (rm_LocateOptions demo_rm)\<lparr>lo_Before := time_Add (Now demo_world) (- 1000)\<rparr>\<rparr>) 3 =
      (1, Some ''locked'')"
    by (simp add: demo_world_def)
  have t: "time_Add (Now demo_world) (- 1000) = 999000"
    by (simp add: time_Add_def demo_world_def)
  have b: "Backup_DoBackup demo_world demo_backup_cmd 3 = (0, None, [], None)"
    "Maintenance_Execute demo_world 3 = (0, None)"
    by (simp_all add: demo_world_def)
  have c: "Task_Repository demo_taskset = ''vault''" "Backup_Retention demo_backup = 1000"
    "Maintenance_Repository demo_maintenance = ''vault''"
    "Maintenance_Retention demo_maintenance = 1000"
    by (simp_all add: demo_taskset_def demo_backup_def demo_maintenance_def)
  show ?thesis
    using retention_purge [OF demo_load rm, of demo_taskset demo_backup demo_backup_cmd "[]" None
        demo_maintenance] t b c
    by simp
qed


text \<open>At the least \<open>int64\<close> the negation wraps: the retention is not zero, the backup
  succeeds, and the purge is run with a cutoff \<open>2 ^ 63\<close> nanoseconds before now, where now
  minus the retention is \<open>2 ^ 63\<close> nanoseconds after now.\<close>

theorem retention_purge_counterexample:
  "Backup_Retention demo_backup_least \<noteq> 0 \<and>
   Backup_DoBackup demo_world demo_backup_cmd 3 = (0, None, [], None) \<and>
   purges (fst (backupTick demo_world demo_taskset demo_backup_least demo_backup_cmd demo_rm)) =
     [(- 9223372036853775808, 3)] \<and>
   Now demo_world - sint (Backup_Retention demo_backup_least) = 9223372036855775808 \<and>
   purges (fst (backupTick demo_world demo_taskset demo_backup_least demo_backup_cmd demo_rm)) \<noteq>
     [(Now demo_world - sint (Backup_Retention demo_backup_least), 3)]"
proof -
  have r: "Backup_Retention demo_backup_least = - 9223372036854775808"
    by (simp add: demo_backup_least_def)
  have n: "Now demo_world = 1000000"
    by (simp add: demo_world_def)
  have ok: "Backup_DoBackup demo_world demo_backup_cmd 3 = (0, None, [], None)"
    by (simp add: demo_world_def)
  have cut: "time_Add 1000000 (- (- 9223372036854775808)) = - 9223372036853775808"
    by (simp add: time_Add_def)
  have p: "purges (fst (backupTick demo_world demo_taskset demo_backup_least demo_backup_cmd demo_rm)) =
      [(- 9223372036853775808, 3)]"
    using demo_load ok cut
    by (simp add: backupTick_def demo_taskset_def r n Let_def demo_world_def)
  show ?thesis
    using p ok by (simp add: r n)
qed

text \<open>
  C5. In each of the five loops (backup, check, restore, sync, maintenance), on a tick
  on which \<open>loadRepository\<close> returns an error, whatever has happened in the rounds
  before: the loop writes the error to the log, makes no call on a report, and goes on
  with the next round as it stood before the tick; it ends as the rounds that follow
  make it end, so with no further round it is waiting in its \<open>select\<close>.
\<close>

theorem load_failure_continues:
  assumes "loadRepository w name = (la, LoadFailed st e)"
  shows "filter is_report (la @ [Log (Error ''Error loading repository: %s'' [AErr (Some e)])]) = [] \<and>
         (Task_Repository taskset = name \<longrightarrow>
            backupTask_loop taskset btask b rm (Tick w # ws) =
              (la @ [Log (Error ''Error loading repository: %s'' [AErr (Some e)])] @
                 fst (backupTask_loop taskset btask b rm ws),
               snd (backupTask_loop taskset btask b rm ws)) \<and>
            checkTask_loop taskset c (Tick w # ws) =
              (la @ [Log (Error ''Error loading repository: %s'' [AErr (Some e)])] @
                 fst (checkTask_loop taskset c ws),
               snd (checkTask_loop taskset c ws)) \<and>
            restoreTask_loop taskset r (Tick w # ws) =
              (la @ [Log (Error ''Error loading repository: %s'' [AErr (Some e)])] @
                 fst (restoreTask_loop taskset r ws),
               snd (restoreTask_loop taskset r ws)) \<and>
            syncTask_loop taskset y (Tick w # ws) =
              (la @ [Log (Error ''Error loading repository: %s'' [AErr (Some e)])] @
                 fst (syncTask_loop taskset y ws),
               snd (syncTask_loop taskset y ws))) \<and>
         (Maintenance_Repository mtask = name \<longrightarrow>
            maintenanceTask_loop mtask rm (Tick w # ws) =
              (la @ [Log (Error ''Error loading repository: %s'' [AErr (Some e)])] @
                 fst (maintenanceTask_loop mtask rm ws),
               snd (maintenanceTask_loop mtask rm ws)))"
  using assms loadRepository_failed [OF assms]
  by (simp add: backupTick_def checkTick_def restoreTick_def syncTick_def maintenanceTick_def
        Let_def)

theorem load_failure_continues_witness:
  "backupTask_loop demo_taskset demo_backup demo_backup_cmd demo_rm [Tick demo_world_down] =
     ([Log (Error ''Error loading repository: %s''
              [AErr (Some ''could not load configuration: no such file'')])], Waiting) \<and>
   checkTask_loop demo_taskset demo_check [Tick demo_world_down, Tick demo_world] =
     ([Log (Error ''Error loading repository: %s''
              [AErr (Some ''could not load configuration: no such file'')]),
       StorageOpen 7, RepositoryNew 3, NewReport, TaskStart ''check'' ''nightly'',
       WithRepositoryName ''vault'', WithRepository 3, CheckExecute demo_check 3, TaskDone,
       RepoClose 3, StoreClose 7], Waiting) \<and>
   restoreTask_loop demo_taskset demo_restore [Tick demo_world_down] =
     ([Log (Error ''Error loading repository: %s''
              [AErr (Some ''could not load configuration: no such file'')])], Waiting) \<and>
   syncTask_loop demo_taskset demo_sync [Tick demo_world_down, Done] =
     ([Log (Error ''Error loading repository: %s''
              [AErr (Some ''could not load configuration: no such file'')])], Returned) \<and>
   maintenanceTask_loop demo_maintenance demo_rm [Tick demo_world_down] =
     ([Log (Error ''Error loading repository: %s''
              [AErr (Some ''could not load configuration: no such file'')])], Waiting)"
proof -
  have c: "Task_Repository demo_taskset = ''vault''"
    "Maintenance_Repository demo_maintenance = ''vault''"
    by (simp_all add: demo_taskset_def demo_maintenance_def)
  have next_tick: "checkTick demo_world demo_taskset demo_check =
      [StorageOpen 7, RepositoryNew 3, NewReport, TaskStart ''check'' ''nightly'',
       WithRepositoryName ''vault'', WithRepository 3, CheckExecute demo_check 3, TaskDone,
       RepoClose 3, StoreClose 7]"
    using demo_load by (simp add: checkTick_def demo_taskset_def demo_world_def)
  from load_failure_continues [OF demo_load_down, of demo_taskset demo_backup demo_backup_cmd
      demo_rm "[]" demo_check demo_restore demo_sync demo_maintenance] c
  have one: "backupTask_loop demo_taskset demo_backup demo_backup_cmd demo_rm [Tick demo_world_down] =
      ([Log (Error ''Error loading repository: %s''
               [AErr (Some ''could not load configuration: no such file'')])], Waiting)"
    "restoreTask_loop demo_taskset demo_restore [Tick demo_world_down] =
      ([Log (Error ''Error loading repository: %s''
               [AErr (Some ''could not load configuration: no such file'')])], Waiting)"
    "maintenanceTask_loop demo_maintenance demo_rm [Tick demo_world_down] =
      ([Log (Error ''Error loading repository: %s''
               [AErr (Some ''could not load configuration: no such file'')])], Waiting)"
    by simp_all
  from load_failure_continues [OF demo_load_down, of demo_taskset demo_backup demo_backup_cmd
      demo_rm "[Tick demo_world]" demo_check demo_restore demo_sync demo_maintenance] c next_tick
  have two: "checkTask_loop demo_taskset demo_check [Tick demo_world_down, Tick demo_world] =
      ([Log (Error ''Error loading repository: %s''
               [AErr (Some ''could not load configuration: no such file'')]),
        StorageOpen 7, RepositoryNew 3, NewReport, TaskStart ''check'' ''nightly'',
        WithRepositoryName ''vault'', WithRepository 3, CheckExecute demo_check 3, TaskDone,
        RepoClose 3, StoreClose 7], Waiting)"
    by simp
  from load_failure_continues [OF demo_load_down, of demo_taskset demo_backup demo_backup_cmd
      demo_rm "[Done]" demo_check demo_restore demo_sync demo_maintenance] c
  have three: "syncTask_loop demo_taskset demo_sync [Tick demo_world_down, Done] =
      ([Log (Error ''Error loading repository: %s''
               [AErr (Some ''could not load configuration: no such file'')])], Returned)"
    by simp
  from one two three show ?thesis by blast
qed




text \<open>
  C8. A sync task whose \<open>Direction\<close> is none of the three recognized values cancels the
  owning execution context and returns, whatever the rounds it would have been given:
  it performs no tick, opens no repository and makes no call on a report.
\<close>

theorem sync_direction_fatal:
  assumes "Sync_Direction task \<notin> {SyncDirectionTo, SyncDirectionFrom, SyncDirectionWith}"
  shows "syncTask taskset task ws = ([CtxCancel], Returned)"
  using assms by (simp add: syncTask_def)

theorem sync_direction_fatal_witness:
  "syncTask demo_taskset \<lparr>Sync_Peer = ''peer'', Sync_Direction = ''both''\<rparr> [Tick demo_world] =
     ([CtxCancel], Returned)"
  using sync_direction_fatal [of "\<lparr>Sync_Peer = ''peer'', Sync_Direction = ''both''\<rparr>"
      demo_taskset "[Tick demo_world]"]
  by (simp add: SyncDirectionTo_def SyncDirectionFrom_def SyncDirectionWith_def)

end
